theory Spec2Isabelle
  imports Main
begin

section \<open>Values and documents\<close>

text \<open>
  The message board of \<^verbatim>\<open>routes/api.js\<close>: three mongoose models (Board, Thread, Reply)
  and eight request handlers on \<^verbatim>\<open>/api/threads/:board\<close> and \<^verbatim>\<open>/api/replies/:board\<close>.
  The handlers are modelled sequentially, one request at a time, as functions from the
  state of the database to a response and the new state.

  An ObjectId is a natural number, a Date the integer milliseconds \<^verbatim>\<open>Date.now\<close> returns.
  Request ids are ids that cast to an ObjectId.
\<close>

type_synonym objectid = nat
type_synonym date = int

text \<open>What a handler sends: the plain JavaScript objects of \<^verbatim>\<open>.lean()\<close> and strings.\<close>

datatype json =
    JNull
  | JStr string
  | JNum int
  | JBool bool
  | JDate date
  | JId objectid
  | JArr "json list"
  | JObj "(string \<times> json) list"

type_synonym object = "(string \<times> json) list"

text \<open>The options a schema gives a path; only \<^verbatim>\<open>required\<close> and \<^verbatim>\<open>select\<close> matter here.\<close>

record path_opts =
  required :: bool
  select :: bool

type_synonym schema = "(string \<times> path_opts) list"

definition replySchema :: schema where
  "replySchema =
     [(''text'', \<lparr>required = False, select = True\<rparr>),
      (''created_on'', \<lparr>required = False, select = True\<rparr>),
      (''delete_password'', \<lparr>required = True, select = False\<rparr>),
      (''reported'', \<lparr>required = False, select = False\<rparr>)]"

definition threadSchema :: schema where
  "threadSchema =
     [(''text'', \<lparr>required = True, select = True\<rparr>),
      (''created_on'', \<lparr>required = False, select = True\<rparr>),
      (''bumped_on'', \<lparr>required = False, select = True\<rparr>),
      (''delete_password'', \<lparr>required = True, select = False\<rparr>),
      (''reported'', \<lparr>required = False, select = False\<rparr>),
      (''replies'', \<lparr>required = False, select = True\<rparr>)]"

definition boardSchema :: schema where
  "boardSchema =
     [(''name'', \<lparr>required = True, select = True\<rparr>),
      (''threads'', \<lparr>required = False, select = True\<rparr>)]"

text \<open>
  Stored documents. Every document has its \<^verbatim>\<open>_id\<close> (the field \<open>oid\<close>); a reply has the
  four paths of \<open>replySchema\<close>, a thread those and \<^verbatim>\<open>bumped_on\<close>, \<^verbatim>\<open>replies\<close>.
  \<^verbatim>\<open>text\<close> is absent (\<open>None\<close>) when the request body had none.
\<close>

record doc =
  oid :: objectid

record post = doc +
  "text" :: "string option"
  created_on :: date
  delete_password :: string
  reported :: bool

type_synonym reply = post

record thread = post +
  bumped_on :: date
  replies :: "objectid list"

record board = doc +
  name :: string
  threads :: "objectid list"

text \<open>
  The document as a plain object with all its paths, as \<^verbatim>\<open>toObject\<close> gives it. The
  version key \<^verbatim>\<open>__v\<close> that mongoose adds is left out.
\<close>

definition optField :: "string \<Rightarrow> string option \<Rightarrow> object" where
  "optField k v = (case v of None \<Rightarrow> [] | Some s \<Rightarrow> [(k, JStr s)])"

definition replyObject :: "reply \<Rightarrow> object" where
  "replyObject r =
     [(''_id'', JId (oid r))] @ optField ''text'' (text r) @
     [(''created_on'', JDate (created_on r)),
      (''delete_password'', JStr (delete_password r)),
      (''reported'', JBool (reported r))]"

definition threadObject :: "thread \<Rightarrow> object" where
  "threadObject t =
     [(''_id'', JId (oid t))] @ optField ''text'' (text t) @
     [(''created_on'', JDate (created_on t)),
      (''bumped_on'', JDate (bumped_on t)),
      (''delete_password'', JStr (delete_password t)),
      (''reported'', JBool (reported t)),
      (''replies'', JArr (map JId (replies t)))]"

definition boardObject :: "board \<Rightarrow> object" where
  "boardObject b =
     [(''_id'', JId (oid b)), (''name'', JStr (name b)),
      (''threads'', JArr (map JId (threads b)))]"

text \<open>
  Validation on \<^verbatim>\<open>save\<close>: a required path must be present, and a required string
  non-empty.
\<close>

definition checkRequired :: "json option \<Rightarrow> bool" where
  "checkRequired v =
     (case v of
        None \<Rightarrow> False
      | Some JNull \<Rightarrow> False
      | Some (JStr s) \<Rightarrow> s \<noteq> []
      | Some _ \<Rightarrow> True)"

definition validate :: "schema \<Rightarrow> object \<Rightarrow> bool" where
  "validate sch obj =
     list_all (\<lambda>(p, opts). required opts \<longrightarrow> checkRequired (map_of obj p)) sch"

text \<open>
  The projection of a query that names no fields: every path but those the schema
  declares \<^verbatim>\<open>select: false\<close>.
\<close>

definition selectDefault :: "schema \<Rightarrow> object \<Rightarrow> object" where
  "selectDefault sch obj =
     filter (\<lambda>(k, v). case map_of sch k of None \<Rightarrow> True | Some opts \<Rightarrow> select opts) obj"

text \<open>Assignment to a property: in place when the object has it, appended otherwise.\<close>

fun setProp :: "string \<Rightarrow> json \<Rightarrow> object \<Rightarrow> object" where
  "setProp k v [] = [(k, v)]"
| "setProp k v ((k', v') # kvs) =
     (if k' = k then (k, v) # kvs else (k', v') # setProp k v kvs)"

text \<open>
  \<^verbatim>\<open>Array.prototype.slice(start)\<close>: a negative \<open>start\<close> counts from the end and is
  clamped at the first element, a positive one is clamped at the length.
\<close>

definition slice :: "int \<Rightarrow> 'a list \<Rightarrow> 'a list" where
  "slice start xs =
     (let len = int (length xs);
          k = (if start < 0 then max (len + start) 0 else min start len)
      in drop (nat k) xs)"

text \<open>
  What a handler's promise can reject with: a TypeError (a property of \<^verbatim>\<open>null\<close> or
  \<^verbatim>\<open>undefined\<close> is read), mongoose's ValidationError, and the error of bcrypt on
  undefined data.
\<close>

datatype error = TypeError | ValidationError | BcryptError

section \<open>The database\<close>

text \<open>
  A collection is the list of its documents in natural (insertion) order. \<^verbatim>\<open>_id\<close>
  carries the collection's unique index, so a filter on \<^verbatim>\<open>_id\<close> selects at most one
  document. \<open>next_oid\<close> is the ObjectId generator: the id the next saved document gets.
\<close>

record state =
  Board :: "board list"
  Thread :: "thread list"
  Reply :: "reply list"
  next_oid :: objectid

definition findById :: "objectid \<Rightarrow> 'a doc_scheme list \<Rightarrow> 'a doc_scheme option" where
  "findById i xs = find (\<lambda>d. oid d = i) xs"

definition updateById ::
  "objectid \<Rightarrow> ('a doc_scheme \<Rightarrow> 'a doc_scheme) \<Rightarrow> 'a doc_scheme list \<Rightarrow> 'a doc_scheme list" where
  "updateById i f xs = map (\<lambda>d. if oid d = i then f d else d) xs"

definition deleteById :: "objectid \<Rightarrow> 'a doc_scheme list \<Rightarrow> 'a doc_scheme list" where
  "deleteById i xs = filter (\<lambda>d. oid d \<noteq> i) xs"

text \<open>
  bcrypt is a parameter: \<open>hash\<close> is \<^verbatim>\<open>bcrypt.hash(data, 10)\<close> on a string and
  \<open>compare\<close> is \<^verbatim>\<open>bcrypt.compare(data, encrypted)\<close> on two strings. Both reject when
  \<open>data\<close> is undefined, which the handlers below write out. The salt that
  \<^verbatim>\<open>bcrypt.hash\<close> draws is part of the parameter.
\<close>

record bcrypt =
  hash :: "string \<Rightarrow> string"
  compare :: "string \<Rightarrow> string \<Rightarrow> bool"

text \<open>
  A handler ends by sending a status and a body, by redirecting to a board's page
  (with the \<^verbatim>\<open>thread_id\<close> query of the reply form), or by the rejection of its promise,
  after which nothing is sent.
\<close>

datatype response =
    Send nat json
  | Redirect nat string "objectid option"
  | Rejected error

section \<open>The handlers\<close>

definition getBoard :: "string \<Rightarrow> state \<Rightarrow> error + (board \<times> state)" where
  "getBoard nm st =
     (case find (\<lambda>b. name b = nm) (Board st) of
        Some brd \<Rightarrow> Inr (brd, st)
      | None \<Rightarrow>
          (let newBoard = \<lparr>oid = next_oid st, name = nm, threads = []\<rparr>
           in if validate boardSchema (boardObject newBoard)
              then Inr (newBoard,
                        st\<lparr>Board := Board st @ [newBoard], next_oid := Suc (next_oid st)\<rparr>)
              else Inl ValidationError))"

text \<open>
  POST \<^verbatim>\<open>/api/threads/:board\<close>. \<open>c_now\<close> and \<open>b_now\<close> are the two readings of
  \<^verbatim>\<open>Date.now\<close> that the defaults of \<^verbatim>\<open>created_on\<close> and \<^verbatim>\<open>bumped_on\<close> take.
\<close>

definition createThread ::
  "bcrypt \<Rightarrow> date \<Rightarrow> date \<Rightarrow> string \<Rightarrow> string option \<Rightarrow> string option \<Rightarrow> state
     \<Rightarrow> response \<times> state" where
  "createThread B c_now b_now brd_name txt pw st =
     (case pw of
        None \<Rightarrow> (Rejected BcryptError, st)
      | Some p \<Rightarrow>
          (let hashedPW = hash B p in
           case getBoard brd_name st of
             Inl e \<Rightarrow> (Rejected e, st)
           | Inr (brd, st1) \<Rightarrow>
               (let newThread =
                      \<lparr>oid = next_oid st1, text = txt, created_on = c_now,
                       delete_password = hashedPW, reported = False,
                       bumped_on = b_now, replies = []\<rparr>
                in if \<not> validate threadSchema (threadObject newThread)
                   then (Rejected ValidationError, st1)
                   else
                     (let st2 = st1\<lparr>Thread := Thread st1 @ [newThread],
                                    next_oid := Suc (next_oid st1)\<rparr>;
                          st3 = st2\<lparr>Board :=
                                  updateById (oid brd)
                                    (\<lambda>b. b\<lparr>threads := threads b @ [oid newThread]\<rparr>)
                                    (Board st2)\<rparr>
                      in (Redirect 302 brd_name None, st3)))))"

text \<open>The replies of a thread, populated: the referenced documents that exist.\<close>

definition populateDocs :: "state \<Rightarrow> objectid list \<Rightarrow> reply list" where
  "populateDocs st refs = List.map_filter (\<lambda>i. findById i (Reply st)) refs"

definition leanReply :: "reply \<Rightarrow> json" where
  "leanReply r = JObj (selectDefault replySchema (replyObject r))"

definition leanThread :: "state \<Rightarrow> thread \<Rightarrow> object" where
  "leanThread st t =
     setProp ''replies'' (JArr (map leanReply (populateDocs st (replies t))))
       (selectDefault threadSchema (threadObject t))"

text \<open>
  The body of the \<^verbatim>\<open>forEach\<close> of GET \<^verbatim>\<open>/api/threads/:board\<close>, on one lean
  thread: reading \<^verbatim>\<open>.length\<close> of a \<^verbatim>\<open>replies\<close> that is no array is a TypeError.
\<close>

definition threadListView :: "object \<Rightarrow> error + object" where
  "threadListView thrd =
     (case map_of thrd ''replies'' of
        Some (JArr rs) \<Rightarrow>
          (let thrd1 = setProp ''replycount'' (JNum (int (length rs))) thrd
           in Inr (setProp ''replies'' (JArr (slice (int (length rs) - 3) rs)) thrd1))
      | _ \<Rightarrow> Inl TypeError)"

fun forEachThread :: "object list \<Rightarrow> error + object list" where
  "forEachThread [] = Inr []"
| "forEachThread (thrd # thrds) =
     (case threadListView thrd of
        Inl e \<Rightarrow> Inl e
      | Inr v \<Rightarrow>
          (case forEachThread thrds of
             Inl e \<Rightarrow> Inl e
           | Inr vs \<Rightarrow> Inr (v # vs)))"

definition findThreads :: "board \<Rightarrow> state \<Rightarrow> thread list" where
  "findThreads brd st =
     take 10 (sort_key (\<lambda>t. - bumped_on t)
       (filter (\<lambda>t. oid t \<in> set (threads brd)) (Thread st)))"

definition listRecent :: "string \<Rightarrow> state \<Rightarrow> response \<times> state" where
  "listRecent brd_name st =
     (case getBoard brd_name st of
        Inl e \<Rightarrow> (Rejected e, st)
      | Inr (brd, st1) \<Rightarrow>
          (case forEachThread (map (leanThread st1) (findThreads brd st1)) of
             Inl e \<Rightarrow> (Rejected e, st1)
           | Inr views \<Rightarrow> (Send 200 (JArr (map JObj views)), st1)))"

text \<open>DELETE \<^verbatim>\<open>/api/threads/:board\<close>.\<close>

definition deleteThread ::
  "bcrypt \<Rightarrow> string option \<Rightarrow> objectid \<Rightarrow> state \<Rightarrow> response \<times> state" where
  "deleteThread B pw thread_id st =
     (case findById thread_id (Thread st) of
        None \<Rightarrow> (Rejected TypeError, st)
      | Some thrd \<Rightarrow>
          (case pw of
             None \<Rightarrow> (Rejected BcryptError, st)
           | Some p \<Rightarrow>
               if compare B p (delete_password thrd)
               then (Send 200 (JStr ''success''),
                     st\<lparr>Thread := deleteById (oid thrd) (Thread st)\<rparr>)
               else (Send 400 (JStr ''incorrect password''), st)))"

text \<open>PUT \<^verbatim>\<open>/api/threads/:board\<close>; the id is \<^verbatim>\<open>thread_id || report_id\<close>.\<close>

definition reportThread :: "objectid \<Rightarrow> state \<Rightarrow> response \<times> state" where
  "reportThread thread_id st =
     (let st1 = st\<lparr>Thread := updateById thread_id (\<lambda>t. t\<lparr>reported := True\<rparr>) (Thread st)\<rparr>
      in case findById thread_id (Thread st) of
           None \<Rightarrow> (Rejected TypeError, st1)
         | Some thrd \<Rightarrow> (Send 200 (JStr ''success''), st1))"

text \<open>POST \<^verbatim>\<open>/api/replies/:board\<close>; \<open>now\<close> is the reading of \<^verbatim>\<open>Date.now\<close>.\<close>

definition createReply ::
  "bcrypt \<Rightarrow> date \<Rightarrow> string \<Rightarrow> string option \<Rightarrow> string option \<Rightarrow> objectid \<Rightarrow> state
     \<Rightarrow> response \<times> state" where
  "createReply B now brd_name txt pw thread_id st =
     (case pw of
        None \<Rightarrow> (Rejected BcryptError, st)
      | Some p \<Rightarrow>
          (let hashedPW = hash B p;
               thrd = findById thread_id (Thread st);
               newReply = \<lparr>oid = next_oid st, text = txt, created_on = now,
                           delete_password = hashedPW, reported = False\<rparr>
           in if \<not> validate replySchema (replyObject newReply)
              then (Rejected ValidationError, st)
              else
                (let st1 = st\<lparr>Reply := Reply st @ [newReply],
                              next_oid := Suc (next_oid st)\<rparr>
                 in case thrd of
                      None \<Rightarrow> (Rejected TypeError, st1)
                    | Some t \<Rightarrow>
                        (Redirect 302 brd_name (Some thread_id),
                         st1\<lparr>Thread :=
                               updateById (oid t)
                                 (\<lambda>t. t\<lparr>replies := replies t @ [oid newReply],
                                        bumped_on := created_on newReply\<rparr>)
                                 (Thread st1)\<rparr>))))"

text \<open>GET \<^verbatim>\<open>/api/replies/:board\<close>: the thread with all its replies, or \<^verbatim>\<open>null\<close>.\<close>

definition getFull :: "objectid \<Rightarrow> state \<Rightarrow> response" where
  "getFull thread_id st =
     Send 200
       (case findById thread_id (Thread st) of
          None \<Rightarrow> JNull
        | Some thrd \<Rightarrow> JObj (leanThread st thrd))"

text \<open>DELETE \<^verbatim>\<open>/api/replies/:board\<close>: the thread is fetched and not used.\<close>

definition redactReply ::
  "bcrypt \<Rightarrow> string option \<Rightarrow> objectid \<Rightarrow> objectid \<Rightarrow> state \<Rightarrow> response \<times> state" where
  "redactReply B pw thread_id reply_id st =
     (let thrd = findById thread_id (Thread st) in
      case findById reply_id (Reply st) of
        None \<Rightarrow> (Rejected TypeError, st)
      | Some rply \<Rightarrow>
          (case pw of
             None \<Rightarrow> (Rejected BcryptError, st)
           | Some p \<Rightarrow>
               if compare B p (delete_password rply)
               then (Send 200 (JStr ''success''),
                     st\<lparr>Reply := updateById (oid rply)
                                   (\<lambda>r. r\<lparr>text := Some ''[deleted]''\<rparr>) (Reply st)\<rparr>)
               else (Send 400 (JStr ''incorrect password''), st)))"

text \<open>PUT \<^verbatim>\<open>/api/replies/:board\<close>.\<close>

definition reportReply :: "objectid \<Rightarrow> state \<Rightarrow> response \<times> state" where
  "reportReply reply_id st =
     (let st1 = st\<lparr>Reply := updateById reply_id (\<lambda>r. r\<lparr>reported := True\<rparr>) (Reply st)\<rparr>
      in case findById reply_id (Reply st) of
           None \<Rightarrow> (Rejected TypeError, st1)
         | Some rply \<Rightarrow> (Send 200 (JStr ''success''), st1))"

section \<open>Reading responses\<close>

text \<open>
  \<open>hasField k v\<close>: some object in the value \<open>v\<close>, at any depth, has the property \<open>k\<close>.
  \<open>getProp k v\<close> reads the property \<open>k\<close> of an object.
\<close>

primrec hasField :: "string \<Rightarrow> json \<Rightarrow> bool" where
  "hasField k JNull = False"
| "hasField k (JStr s) = False"
| "hasField k (JNum n) = False"
| "hasField k (JBool b) = False"
| "hasField k (JDate d) = False"
| "hasField k (JId i) = False"
| "hasField k (JArr xs) = list_ex id (map (hasField k) xs)"
| "hasField k (JObj kvs) =
     (k \<in> set (map fst kvs) \<or> list_ex snd (map (map_prod id (hasField k)) kvs))"

definition getProp :: "string \<Rightarrow> json \<Rightarrow> json option" where
  "getProp k v = (case v of JObj obj \<Rightarrow> map_of obj k | _ \<Rightarrow> None)"

text \<open>
  The handlers send 200 and redirect with 302 when they have done what was asked, and send
  400 when they refuse; a rejected promise sends nothing.
\<close>

definition succeeded :: "response \<Rightarrow> bool" where
  "succeeded r =
     (case r of
        Send status body \<Rightarrow> status < 400
      | Redirect status brd q \<Rightarrow> status < 400
      | Rejected e \<Rightarrow> False)"

section \<open>A bcrypt and databases to evaluate the handlers on\<close>

text \<open>
  \<open>demoBcrypt\<close> stands in for bcrypt: its digest is the password after the prefix of a
  bcrypt digest. The databases are those that posts to the board "general" of the empty
  database produce: a thread and a reply (\<open>demoDb\<close>), one more reply to that thread
  (\<open>twoRepliesDb\<close>), and two threads without replies (\<open>twoThreadsDb\<close>).
\<close>

definition demoBcrypt :: bcrypt where
  "demoBcrypt = \<lparr>hash = (\<lambda>p. ''$2b$10$'' @ p), compare = (\<lambda>p d. d = ''$2b$10$'' @ p)\<rparr>"

definition emptyDb :: state where
  "emptyDb = \<lparr>Board = [], Thread = [], Reply = [], next_oid = 0\<rparr>"

definition demoDb :: state where
  "demoDb =
     \<lparr>Board = [\<lparr>oid = 0, name = ''general'', threads = [1]\<rparr>],
      Thread = [\<lparr>oid = 1, text = Some ''hello'', created_on = 1000,
                 delete_password = ''$2b$10$p1'', reported = False,
                 bumped_on = 2000, replies = [2]\<rparr>],
      Reply = [\<lparr>oid = 2, text = Some ''hi'', created_on = 2000,
                delete_password = ''$2b$10$p2'', reported = False\<rparr>],
      next_oid = 3\<rparr>"

definition twoRepliesDb :: state where
  "twoRepliesDb =
     \<lparr>Board = [\<lparr>oid = 0, name = ''general'', threads = [1]\<rparr>],
      Thread = [\<lparr>oid = 1, text = Some ''hello'', created_on = 1000,
                 delete_password = ''$2b$10$p1'', reported = False,
                 bumped_on = 3000, replies = [2, 3]\<rparr>],
      Reply = [\<lparr>oid = 2, text = Some ''hi'', created_on = 2000,
                delete_password = ''$2b$10$p2'', reported = False\<rparr>,
               \<lparr>oid = 3, text = Some ''again'', created_on = 3000,
                delete_password = ''$2b$10$p3'', reported = False\<rparr>],
      next_oid = 4\<rparr>"

definition twoThreadsDb :: state where
  "twoThreadsDb =
     \<lparr>Board = [\<lparr>oid = 0, name = ''general'', threads = [1, 2]\<rparr>],
      Thread = [\<lparr>oid = 1, text = Some ''first'', created_on = 1000,
                 delete_password = ''$2b$10$p1'', reported = False,
                 bumped_on = 1000, replies = []\<rparr>,
                \<lparr>oid = 2, text = Some ''second'', created_on = 5000,
                 delete_password = ''$2b$10$p2'', reported = False,
                 bumped_on = 5000, replies = []\<rparr>],
      Reply = [],
      next_oid = 3\<rparr>"

section \<open>Lemmas on objects and collections\<close>

lemma hasField_JArr: "hasField k (JArr xs) = (\<exists>x\<in>set xs. hasField k x)"
  by (simp add: list_ex_iff)

lemma hasField_JObj:
  "hasField k (JObj kvs) = (k \<in> fst ` set kvs \<or> (\<exists>v\<in>snd ` set kvs. hasField k v))"
  by (auto simp: list_ex_iff)

declare hasField.simps(7,8) [simp del]
declare hasField_JArr [simp] hasField_JObj [simp]

lemma set_setProp: "set (setProp k v obj) \<subseteq> insert (k, v) (set obj)"
  by (induction obj) (auto split: if_splits)

lemma hasField_setProp:
  assumes "hasField k (JObj (setProp k' v obj))"
  shows "k = k' \<or> hasField k v \<or> hasField k (JObj obj)"
proof -
  from assms obtain kv where kv: "kv \<in> set (setProp k' v obj)"
    and hit: "k = fst kv \<or> hasField k (snd kv)"
    by auto
  from kv set_setProp[of k' v obj] have "kv = (k', v) \<or> kv \<in> set obj"
    by blast
  then show ?thesis
  proof
    assume "kv = (k', v)"
    with hit show ?thesis by auto
  next
    assume "kv \<in> set obj"
    with hit have "k \<in> fst ` set obj \<or> (\<exists>w\<in>snd ` set obj. hasField k w)"
      by (metis image_eqI)
    then show ?thesis by simp
  qed
qed

lemma hasField_leanReply:
  "k = ''delete_password'' \<or> k = ''reported'' \<Longrightarrow> \<not> hasField k (leanReply r)"
  by (cases "text r") (auto simp: leanReply_def selectDefault_def replySchema_def replyObject_def optField_def)

lemma hasField_selectThread:
  "k = ''delete_password'' \<or> k = ''reported'' \<Longrightarrow>
   \<not> hasField k (JObj (selectDefault threadSchema (threadObject t)))"
  by (cases "text t") (auto simp: selectDefault_def threadSchema_def threadObject_def optField_def)

lemma hasField_leanThread:
  assumes "k = ''delete_password'' \<or> k = ''reported''"
  shows "\<not> hasField k (JObj (leanThread st t))"
proof
  assume "hasField k (JObj (leanThread st t))"
  then have "k = ''replies'' \<or> hasField k (JArr (map leanReply (populateDocs st (replies t))))
     \<or> hasField k (JObj (selectDefault threadSchema (threadObject t)))"
    unfolding leanThread_def by (rule hasField_setProp)
  with assms show False
    using hasField_selectThread[OF assms] hasField_leanReply[OF assms]
    by (auto simp: hasField_JArr)
qed

lemma map_of_setProp: "map_of (setProp k v obj) k' = (if k' = k then Some v else map_of obj k')"
  by (induction obj) auto

lemma hasField_map_of:
  assumes "map_of obj k' = Some v" and "hasField k v"
  shows "hasField k (JObj obj)"
proof -
  from assms(1) have "(k', v) \<in> set obj" by (rule map_of_SomeD)
  then have "v \<in> snd ` set obj" by force
  with assms(2) show ?thesis by auto
qed

lemma set_slice: "set (slice n xs) \<subseteq> set xs"
  by (simp add: slice_def Let_def set_drop_subset)

lemma hasField_threadListView:
  assumes "threadListView thrd = Inr v" "hasField k (JObj v)" "k \<noteq> ''replies''" "k \<noteq> ''replycount''"
  shows "hasField k (JObj thrd)"
proof -
  from assms(1) obtain rs where rs: "map_of thrd ''replies'' = Some (JArr rs)"
    and v: "v = setProp ''replies'' (JArr (slice (int (length rs) - 3) rs))
                  (setProp ''replycount'' (JNum (int (length rs))) thrd)"
    by (auto simp: threadListView_def Let_def split: option.splits json.splits)
  from assms(2) v assms(3) have "hasField k (JArr (slice (int (length rs) - 3) rs))
      \<or> hasField k (JObj (setProp ''replycount'' (JNum (int (length rs))) thrd))"
    using hasField_setProp[of k "''replies''"] by blast
  then show ?thesis
  proof
    assume "hasField k (JArr (slice (int (length rs) - 3) rs))"
    then have "hasField k (JArr rs)" using set_slice[of _ rs] by (auto simp: hasField_JArr)
    with rs show ?thesis by (rule hasField_map_of)
  next
    assume "hasField k (JObj (setProp ''replycount'' (JNum (int (length rs))) thrd))"
    from hasField_setProp[OF this] assms(4) show ?thesis by simp
  qed
qed

lemma forEachThread_set:
  "forEachThread thrds = Inr vs \<Longrightarrow> v \<in> set vs \<Longrightarrow> \<exists>t\<in>set thrds. threadListView t = Inr v"
  by (induction thrds arbitrary: vs) (auto split: sum.splits)

lemma findById_Some: "findById i xs = Some d \<Longrightarrow> d \<in> set xs \<and> oid d = i"
  unfolding findById_def by (induction xs) (auto split: if_splits)

lemma findById_deleteById: "findById i (deleteById i xs) = None"
  unfolding findById_def deleteById_def by (induction xs) auto

lemma updateById_absent: "findById i xs = None \<Longrightarrow> updateById i f xs = xs"
  unfolding findById_def updateById_def by (induction xs) (auto split: if_splits)

lemma findById_updateById:
  assumes "\<And>d. oid (f d) = oid d"
  shows "findById j (updateById i f xs) =
         map_option (\<lambda>d. if oid d = i then f d else d) (findById j xs)"
  unfolding findById_def updateById_def using assms by (induction xs) auto

lemma validate_thread:
  "validate threadSchema (threadObject t) =
     (text t \<noteq> None \<and> text t \<noteq> Some [] \<and> delete_password t \<noteq> [])"
  by (cases "text t") (auto simp: validate_def threadSchema_def threadObject_def optField_def checkRequired_def)

lemma validate_reply: "validate replySchema (replyObject r) = (delete_password r \<noteq> [])"
  by (cases "text r") (auto simp: validate_def replySchema_def replyObject_def optField_def checkRequired_def)

text \<open>The definitions that evaluate a handler on a database written out.\<close>

lemmas eval_defs =
  listRecent_def getBoard_def findThreads_def leanThread_def leanReply_def
  populateDocs_def List.map_filter_def findById_def updateById_def deleteById_def
  selectDefault_def threadSchema_def threadObject_def replySchema_def replyObject_def
  boardSchema_def boardObject_def validate_def checkRequired_def
  optField_def threadListView_def slice_def getFull_def getProp_def Let_def

section \<open>The scenario of the board "general"\<close>

text \<open>
  \<open>demoDb\<close> is the database after a thread is posted to the new board "general" and a
  reply is posted to that thread; what the two read handlers send on it hides the
  passwords and the reported flags.
\<close>

lemma demoDb_scenario:
  "snd (createReply demoBcrypt 2000 ''general'' (Some ''hi'') (Some ''p2'') 1
     (snd (createThread demoBcrypt 1000 1000 ''general'' (Some ''hello'') (Some ''p1'') emptyDb)))
   = demoDb"
  by (simp add: createReply_def createThread_def getBoard_def demoBcrypt_def emptyDb_def demoDb_def
      validate_def boardSchema_def boardObject_def threadSchema_def threadObject_def replySchema_def
      replyObject_def optField_def checkRequired_def updateById_def findById_def Let_def)

lemma demo_listRecent:
  "listRecent ''general'' demoDb =
    (Send 200 (JArr [JObj [(''_id'', JId 1), (''text'', JStr ''hello''), (''created_on'', JDate 1000),
        (''bumped_on'', JDate 2000),
        (''replies'', JArr [JObj [(''_id'', JId 2), (''text'', JStr ''hi''), (''created_on'', JDate 2000)]]),
        (''replycount'', JNum 1)]]), demoDb)"
  by (simp add: listRecent_def getBoard_def demoDb_def findThreads_def leanThread_def leanReply_def
      populateDocs_def List.map_filter_def findById_def selectDefault_def threadSchema_def threadObject_def
      replySchema_def replyObject_def optField_def threadListView_def slice_def Let_def)

lemma demo_getFull:
  "getFull 1 demoDb =
    Send 200 (JObj [(''_id'', JId 1), (''text'', JStr ''hello''), (''created_on'', JDate 1000),
        (''bumped_on'', JDate 2000),
        (''replies'', JArr [JObj [(''_id'', JId 2), (''text'', JStr ''hi''), (''created_on'', JDate 2000)]])])"
  by (simp add: getFull_def demoDb_def leanThread_def leanReply_def
      populateDocs_def List.map_filter_def findById_def selectDefault_def threadSchema_def threadObject_def
      replySchema_def replyObject_def optField_def Let_def)

lemma twoRepliesDb_scenario:
  "snd (createReply demoBcrypt 3000 ''general'' (Some ''again'') (Some ''p3'') 1 demoDb) = twoRepliesDb"
  by (simp add: createReply_def demoBcrypt_def demoDb_def twoRepliesDb_def eval_defs)

lemma twoThreadsDb_scenario:
  "snd (createThread demoBcrypt 5000 5000 ''general'' (Some ''second'') (Some ''p2'')
     (snd (createThread demoBcrypt 1000 1000 ''general'' (Some ''first'') (Some ''p1'') emptyDb)))
   = twoThreadsDb"
  by (simp add: createThread_def demoBcrypt_def emptyDb_def twoThreadsDb_def eval_defs)

lemma twoThreads_listRecent:
  "listRecent ''general'' twoThreadsDb =
    (Send 200 (JArr
       [JObj [(''_id'', JId 2), (''text'', JStr ''second''), (''created_on'', JDate 5000),
              (''bumped_on'', JDate 5000), (''replies'', JArr []), (''replycount'', JNum 0)],
        JObj [(''_id'', JId 1), (''text'', JStr ''first''), (''created_on'', JDate 1000),
              (''bumped_on'', JDate 1000), (''replies'', JArr []), (''replycount'', JNum 0)]]),
     twoThreadsDb)"
  by (simp add: twoThreadsDb_def eval_defs)

section \<open>Read views\<close>

text \<open>
  Neither of the two paths that the schemas declare \<^verbatim>\<open>select: false\<close> is a property of
  anything the two read handlers send.
\<close>

lemma views_hide:
  assumes "k = ''delete_password'' \<or> k = ''reported''"
  shows "(\<forall>c body st'. listRecent brd_name st = (Send c body, st') \<longrightarrow> \<not> hasField k body)
       \<and> (\<forall>c body. getFull thread_id st = Send c body \<longrightarrow> \<not> hasField k body)"
proof (intro conjI allI impI)
  fix c body st'
  assume a: "listRecent brd_name st = (Send c body, st')"
  then obtain brd vs where vs: "forEachThread (map (leanThread st') (findThreads brd st')) = Inr vs"
    and body: "body = JArr (map JObj vs)"
    by (auto simp: listRecent_def split: sum.splits prod.splits)
  show "\<not> hasField k body"
  proof
    assume "hasField k body"
    then obtain v where v: "v \<in> set vs" "hasField k (JObj v)"
      by (auto simp: body hasField_JArr)
    from forEachThread_set[OF vs v(1)] obtain t where "threadListView (leanThread st' t) = Inr v"
      by auto
    from hasField_threadListView[OF this v(2)] assms have "hasField k (JObj (leanThread st' t))"
      by auto
    with hasField_leanThread[OF assms] show False by blast
  qed
next
  fix c body
  assume "getFull thread_id st = Send c body"
  then show "\<not> hasField k body"
    using hasField_leanThread[OF assms, of st]
    by (auto simp: getFull_def split: option.splits)
qed


text \<open>
  Claim C1. Every thread and every reply that a read view emits (the thread list of
  \<open>listRecent\<close>, the thread with its replies of \<open>getFull\<close>) has neither the property
  \<^verbatim>\<open>delete_password\<close> nor the property \<^verbatim>\<open>reported\<close>.
\<close>

theorem C1_views_hide_privileged_fields:
  "(listRecent brd_name st = (Send status body, st') \<longrightarrow>
      \<not> hasField ''delete_password'' body \<and> \<not> hasField ''reported'' body)
   \<and> (getFull thread_id st = Send status2 body2 \<longrightarrow>
      \<not> hasField ''delete_password'' body2 \<and> \<not> hasField ''reported'' body2)"
  using views_hide[of "''delete_password''" brd_name st thread_id]
        views_hide[of "''reported''" brd_name st thread_id]
  by blast

theorem C1_witness:
  "(\<exists>body. listRecent ''general'' demoDb = (Send 200 body, demoDb)
       \<and> \<not> hasField ''delete_password'' body \<and> \<not> hasField ''reported'' body)
   \<and> (\<exists>body2. getFull 1 demoDb = Send 200 body2
       \<and> \<not> hasField ''delete_password'' body2 \<and> \<not> hasField ''reported'' body2)"
  using C1_views_hide_privileged_fields[of "''general''" demoDb 200 _ demoDb 1 200]
        demo_listRecent demo_getFull
  by blast

section \<open>The board registry\<close>

lemma validate_board: "validate boardSchema (boardObject b) = (name b \<noteq> [])"
  by (simp add: validate_def boardSchema_def boardObject_def checkRequired_def)

lemma find_append_new:
  "find P xs = None \<Longrightarrow> P y \<Longrightarrow> find P (xs @ [y]) = Some y"
  by (induction xs) (auto split: if_splits)

lemma find_holds: "find P xs = Some x \<Longrightarrow> P x"
  by (induction xs) (auto split: if_splits)

text \<open>
  Claim C9. For every board name, \<open>getBoard\<close> called twice in a row returns the same
  board both times: the second call finds the board that the first call found or
  created, and changes nothing. The board that the first call returns has the name and
  is, after the call, the stored board that a lookup of the name finds: either it was
  found and the database is as before, or no board had the name and the new board,
  with no threads, has been appended to the boards. A name of the route is not empty,
  and for such a name \<open>getBoard\<close> returns a board.
\<close>

theorem C9_getBoard_twice:
  "(brd_name \<noteq> [] \<longrightarrow> (\<exists>brd st1. getBoard brd_name st = Inr (brd, st1)))
   \<and> (\<forall>brd st1. getBoard brd_name st = Inr (brd, st1) \<longrightarrow>
        name brd = brd_name
        \<and> find (\<lambda>b. name b = brd_name) (Board st1) = Some brd
        \<and> (if find (\<lambda>b. name b = brd_name) (Board st) = None
            then brd = \<lparr>oid = next_oid st, name = brd_name, threads = []\<rparr>
                 \<and> st1 = st\<lparr>Board := Board st @ [brd], next_oid := Suc (next_oid st)\<rparr>
            else find (\<lambda>b. name b = brd_name) (Board st) = Some brd \<and> st1 = st)
        \<and> getBoard brd_name st1 = Inr (brd, st1))"
proof (rule conjI)
  show "brd_name \<noteq> [] \<longrightarrow> (\<exists>brd st1. getBoard brd_name st = Inr (brd, st1))"
    by (simp add: getBoard_def validate_board Let_def split: option.splits)
next
  have twice: "name brd = brd_name
        \<and> find (\<lambda>b. name b = brd_name) (Board st1) = Some brd
        \<and> (if find (\<lambda>b. name b = brd_name) (Board st) = None
            then brd = \<lparr>oid = next_oid st, name = brd_name, threads = []\<rparr>
                 \<and> st1 = st\<lparr>Board := Board st @ [brd], next_oid := Suc (next_oid st)\<rparr>
            else find (\<lambda>b. name b = brd_name) (Board st) = Some brd \<and> st1 = st)
        \<and> getBoard brd_name st1 = Inr (brd, st1)"
    if a: "getBoard brd_name st = Inr (brd, st1)" for brd st1
  proof (cases "find (\<lambda>b. name b = brd_name) (Board st)")
    case (Some b)
    with a have eq: "brd = b" "st1 = st" by (simp_all add: getBoard_def)
    from Some have "name b = brd_name" by (rule find_holds)
    with Some eq show ?thesis by (simp add: getBoard_def)
  next
    case None
    with a have ok: "brd_name \<noteq> []"
      and brd: "brd = \<lparr>oid = next_oid st, name = brd_name, threads = []\<rparr>"
      and st1: "st1 = st\<lparr>Board := Board st @ [brd], next_oid := Suc (next_oid st)\<rparr>"
      by (auto simp: getBoard_def validate_board Let_def split: if_splits)
    from brd have nm: "name brd = brd_name" by simp
    with None have found: "find (\<lambda>b. name b = brd_name) (Board st @ [brd]) = Some brd"
      by (simp add: find_append_new)
    then have again: "getBoard brd_name st1 = Inr (brd, st1)"
      by (simp add: getBoard_def st1)
    from found have "find (\<lambda>b. name b = brd_name) (Board st1) = Some brd"
      by (simp add: st1)
    with nm None brd st1 again show ?thesis by simp
  qed
  then show "\<forall>brd st1. getBoard brd_name st = Inr (brd, st1) \<longrightarrow>
        name brd = brd_name
        \<and> find (\<lambda>b. name b = brd_name) (Board st1) = Some brd
        \<and> (if find (\<lambda>b. name b = brd_name) (Board st) = None
            then brd = \<lparr>oid = next_oid st, name = brd_name, threads = []\<rparr>
                 \<and> st1 = st\<lparr>Board := Board st @ [brd], next_oid := Suc (next_oid st)\<rparr>
            else find (\<lambda>b. name b = brd_name) (Board st) = Some brd \<and> st1 = st)
        \<and> getBoard brd_name st1 = Inr (brd, st1)"
    by blast
qed

theorem C9_witness:
  "''general'' \<noteq> []
   \<and> getBoard ''general'' emptyDb =
       Inr (\<lparr>oid = 0, name = ''general'', threads = []\<rparr>,
            \<lparr>Board = [\<lparr>oid = 0, name = ''general'', threads = []\<rparr>], Thread = [], Reply = [], next_oid = 1\<rparr>)
   \<and> find (\<lambda>b. name b = ''general'')
        (Board \<lparr>Board = [\<lparr>oid = 0, name = ''general'', threads = []\<rparr>], Thread = [], Reply = [], next_oid = 1\<rparr>)
       = Some \<lparr>oid = 0, name = ''general'', threads = []\<rparr>
   \<and> getBoard ''general''
        \<lparr>Board = [\<lparr>oid = 0, name = ''general'', threads = []\<rparr>], Thread = [], Reply = [], next_oid = 1\<rparr> =
       Inr (\<lparr>oid = 0, name = ''general'', threads = []\<rparr>,
            \<lparr>Board = [\<lparr>oid = 0, name = ''general'', threads = []\<rparr>], Thread = [], Reply = [], next_oid = 1\<rparr>)
   \<and> getBoard ''general'' demoDb = Inr (\<lparr>oid = 0, name = ''general'', threads = [1]\<rparr>, demoDb)
   \<and> find (\<lambda>b. name b = ''general'') (Board demoDb) = Some \<lparr>oid = 0, name = ''general'', threads = [1]\<rparr>"
proof -
  let ?b = "\<lparr>oid = 0, name = ''general'', threads = []\<rparr>"
  let ?st1 = "\<lparr>Board = [?b], Thread = [], Reply = [], next_oid = 1\<rparr>"
  have g: "getBoard ''general'' emptyDb = Inr (?b, ?st1)"
    by (simp add: getBoard_def emptyDb_def validate_board Let_def)
  have h: "getBoard ''general'' demoDb = Inr (\<lparr>oid = 0, name = ''general'', threads = [1]\<rparr>, demoDb)"
    by (simp add: getBoard_def demoDb_def)
  from C9_getBoard_twice[of "''general''" emptyDb] g
  have "find (\<lambda>b. name b = ''general'') (Board ?st1) = Some ?b
        \<and> getBoard ''general'' ?st1 = Inr (?b, ?st1)"
    by blast
  moreover from C9_getBoard_twice[of "''general''" demoDb] h
  have "find (\<lambda>b. name b = ''general'') (Board demoDb)
          = Some \<lparr>oid = 0, name = ''general'', threads = [1]\<rparr>"
    by blast
  ultimately show ?thesis using g h by simp
qed

section \<open>Deleting a thread\<close>

text \<open>
  Claim C2, as amended. For every existing thread, \<open>deleteThread\<close> with a password that
  \<open>compare\<close> refuses against the stored digest sends 400 "incorrect password" and
  leaves the database as it was; with a password that \<open>compare\<close> accepts it sends 200
  "success" and removes the thread, so that \<open>getFull\<close> on the same id then finds no
  thread: it sends status 200 with the body \<^verbatim>\<open>null\<close>.
\<close>

theorem C2_delete_thread:
  assumes "findById thread_id (Thread st) = Some thrd"
  shows "(\<not> compare B p (delete_password thrd) \<longrightarrow>
            deleteThread B (Some p) thread_id st = (Send 400 (JStr ''incorrect password''), st))
       \<and> (compare B p (delete_password thrd) \<longrightarrow>
            (\<exists>st'. deleteThread B (Some p) thread_id st = (Send 200 (JStr ''success''), st')
                 \<and> findById thread_id (Thread st') = None
                 \<and> getFull thread_id st' = Send 200 JNull))"
proof -
  from assms have "oid thrd = thread_id" by (simp add: findById_Some)
  with assms show ?thesis
    by (simp add: deleteThread_def getFull_def findById_deleteById)
qed

text \<open>
  The claim as first stated has \<open>getFull\<close> fail with NotFound after the deletion. On
  the board "general", after thread 1 is deleted with its password, \<open>getFull\<close> sends
  the success status 200.
\<close>

theorem C2_counterexample:
  "fst (deleteThread demoBcrypt (Some ''p1'') 1 demoDb) = Send 200 (JStr ''success'')
   \<and> getFull 1 (snd (deleteThread demoBcrypt (Some ''p1'') 1 demoDb)) = Send 200 JNull
   \<and> succeeded (getFull 1 (snd (deleteThread demoBcrypt (Some ''p1'') 1 demoDb)))"
  by (simp add: deleteThread_def getFull_def demoDb_def demoBcrypt_def findById_def
      deleteById_def succeeded_def)

theorem C2_witness:
  "findById 1 (Thread demoDb) = Some (hd (Thread demoDb))
   \<and> \<not> compare demoBcrypt ''wrong'' (delete_password (hd (Thread demoDb)))
   \<and> deleteThread demoBcrypt (Some ''wrong'') 1 demoDb = (Send 400 (JStr ''incorrect password''), demoDb)
   \<and> compare demoBcrypt ''p1'' (delete_password (hd (Thread demoDb)))
   \<and> (\<exists>st'. deleteThread demoBcrypt (Some ''p1'') 1 demoDb = (Send 200 (JStr ''success''), st')
          \<and> findById 1 (Thread st') = None \<and> getFull 1 st' = Send 200 JNull)"
proof -
  have f: "findById 1 (Thread demoDb) = Some (hd (Thread demoDb))"
    by (simp add: demoDb_def findById_def)
  have w: "\<not> compare demoBcrypt ''wrong'' (delete_password (hd (Thread demoDb)))"
    by (simp add: demoDb_def demoBcrypt_def)
  have c: "compare demoBcrypt ''p1'' (delete_password (hd (Thread demoDb)))"
    by (simp add: demoDb_def demoBcrypt_def)
  from C2_delete_thread[OF f, of demoBcrypt "''wrong''"] C2_delete_thread[OF f, of demoBcrypt "''p1''"] f w c
  show ?thesis by blast
qed

section \<open>Ids that match no document\<close>

text \<open>
  Claim C7, as amended. On a thread id that matches no thread, \<open>getFull\<close> sends status
  200 with the body \<^verbatim>\<open>null\<close>, and \<open>reportThread\<close> rejects with a TypeError, sends
  nothing and leaves the database as it was; so does \<open>reportReply\<close> on a reply id that
  matches no reply.
\<close>

theorem C7_missing_ids:
  "(findById thread_id (Thread st) = None \<longrightarrow>
      getFull thread_id st = Send 200 JNull \<and> reportThread thread_id st = (Rejected TypeError, st))
   \<and> (findById reply_id (Reply st) = None \<longrightarrow>
      reportReply reply_id st = (Rejected TypeError, st))"
  by (simp add: getFull_def reportThread_def reportReply_def updateById_absent)

text \<open>
  The claim as first stated has the three fail with one NotFound outcome. On the board
  "general", where no thread and no reply has the id 7, \<open>getFull\<close> sends the success
  status 200 and the two reports reject with a TypeError.
\<close>

theorem C7_counterexample:
  "findById 7 (Thread demoDb) = None
   \<and> getFull 7 demoDb = Send 200 JNull
   \<and> succeeded (getFull 7 demoDb)
   \<and> fst (reportThread 7 demoDb) = Rejected TypeError
   \<and> fst (reportReply 7 demoDb) = Rejected TypeError"
  by (simp add: getFull_def reportThread_def reportReply_def demoDb_def findById_def succeeded_def)

theorem C7_witness:
  "findById 7 (Thread demoDb) = None \<and> findById 7 (Reply demoDb) = None
   \<and> getFull 7 demoDb = Send 200 JNull
   \<and> reportThread 7 demoDb = (Rejected TypeError, demoDb)
   \<and> reportReply 7 demoDb = (Rejected TypeError, demoDb)"
proof -
  have t: "findById 7 (Thread demoDb) = None" and r: "findById 7 (Reply demoDb) = None"
    by (simp_all add: demoDb_def findById_def)
  with C7_missing_ids[of 7 demoDb 7] show ?thesis by simp
qed

section \<open>Redacting a reply\<close>

text \<open>
  Claim C10. For every existing reply, what \<open>redactReply\<close> does depends on the reply id
  and the password only, not on the thread id: with any two thread ids the response and
  the new database are the same. With the password of the reply the text is overwritten
  and 200 "success" is sent, also when the thread id matches no thread; with another
  password 400 "incorrect password" is sent and nothing changes.
\<close>

theorem C10_redact_ignores_thread:
  assumes "findById reply_id (Reply st) = Some rply"
  shows "redactReply B pw thread_id reply_id st = redactReply B pw thread_id' reply_id st
       \<and> (compare B p (delete_password rply) \<longrightarrow>
            fst (redactReply B (Some p) thread_id reply_id st) = Send 200 (JStr ''success'')
            \<and> findById reply_id (Reply (snd (redactReply B (Some p) thread_id reply_id st)))
                = Some (rply\<lparr>text := Some ''[deleted]''\<rparr>))
       \<and> (\<not> compare B p (delete_password rply) \<longrightarrow>
            redactReply B (Some p) thread_id reply_id st
              = (Send 400 (JStr ''incorrect password''), st))"
proof -
  from assms have "oid rply = reply_id" by (simp add: findById_Some)
  with assms show ?thesis
    by (simp add: redactReply_def findById_updateById)
qed

theorem C10_witness:
  "findById 2 (Reply demoDb) = Some (hd (Reply demoDb))
   \<and> findById 99 (Thread demoDb) = None
   \<and> redactReply demoBcrypt (Some ''p2'') 99 2 demoDb = redactReply demoBcrypt (Some ''p2'') 1 2 demoDb
   \<and> fst (redactReply demoBcrypt (Some ''p2'') 99 2 demoDb) = Send 200 (JStr ''success'')
   \<and> redactReply demoBcrypt (Some ''wrong'') 99 2 demoDb = (Send 400 (JStr ''incorrect password''), demoDb)"
proof -
  have f: "findById 2 (Reply demoDb) = Some (hd (Reply demoDb))"
    and n: "findById 99 (Thread demoDb) = None"
    by (simp_all add: demoDb_def findById_def)
  have c: "compare demoBcrypt ''p2'' (delete_password (hd (Reply demoDb)))"
    and w: "\<not> compare demoBcrypt ''wrong'' (delete_password (hd (Reply demoDb)))"
    by (simp_all add: demoDb_def demoBcrypt_def)
  from C10_redact_ignores_thread[OF f, of demoBcrypt "Some ''p2''" 99 1 "''p2''"]
       C10_redact_ignores_thread[OF f, of demoBcrypt "Some ''wrong''" 99 1 "''wrong''"] f n c w
  show ?thesis by blast
qed

section \<open>The list of recent threads\<close>

text \<open>
  What the forEach leaves of a lean thread: \<^verbatim>\<open>bumped_on\<close> as stored, the count of the
  populated replies, and the slice of them.
\<close>

lemma leanThread_replies:
  "map_of (leanThread st t) ''replies'' = Some (JArr (map leanReply (populateDocs st (replies t))))"
  by (simp add: leanThread_def map_of_setProp)

lemma leanThread_bumped_on:
  "map_of (leanThread st t) ''bumped_on'' = Some (JDate (bumped_on t))"
  by (cases "text t")
     (simp_all add: leanThread_def map_of_setProp selectDefault_def threadSchema_def
        threadObject_def optField_def)

lemma threadListView_leanThread:
  "\<exists>v. threadListView (leanThread st t) = Inr v
     \<and> map_of v ''bumped_on'' = Some (JDate (bumped_on t))
     \<and> map_of v ''replycount'' = Some (JNum (int (length (populateDocs st (replies t)))))
     \<and> map_of v ''replies'' =
         Some (JArr (slice (int (length (populateDocs st (replies t))) - 3)
                       (map leanReply (populateDocs st (replies t)))))"
  by (simp add: threadListView_def leanThread_replies leanThread_bumped_on map_of_setProp Let_def)

lemma forEachThread_leanThread:
  "\<exists>vs. forEachThread (map (leanThread st) ts) = Inr vs \<and> length vs = length ts
      \<and> (\<forall>i<length ts. threadListView (leanThread st (ts ! i)) = Inr (vs ! i))"
proof (induction ts)
  case Nil
  then show ?case by simp
next
  case (Cons t ts)
  from threadListView_leanThread[of st t] obtain v where
    v: "threadListView (leanThread st t) = Inr v" by blast
  from Cons obtain vs where vs: "forEachThread (map (leanThread st) ts) = Inr vs"
    "length vs = length ts"
    "\<forall>i<length ts. threadListView (leanThread st (ts ! i)) = Inr (vs ! i)" by blast
  have "forEachThread (map (leanThread st) (t # ts)) = Inr (v # vs)" using v vs(1) by simp
  moreover have "\<forall>i<length (t # ts).
      threadListView (leanThread st ((t # ts) ! i)) = Inr ((v # vs) ! i)"
    using v vs(3) by (auto simp: nth_Cons')
  ultimately show ?case using vs(2) by auto
qed

lemma listRecent_views:
  assumes "getBoard brd_name st = Inr (brd, st1)"
  shows "\<exists>vs. listRecent brd_name st = (Send 200 (JArr (map JObj vs)), st1)
     \<and> length vs = length (findThreads brd st1)
     \<and> (\<forall>i<length vs. threadListView (leanThread st1 (findThreads brd st1 ! i)) = Inr (vs ! i))"
proof -
  from forEachThread_leanThread[of st1 "findThreads brd st1"] obtain vs where
    vs: "forEachThread (map (leanThread st1) (findThreads brd st1)) = Inr vs"
        "length vs = length (findThreads brd st1)"
        "\<forall>i<length (findThreads brd st1).
            threadListView (leanThread st1 (findThreads brd st1 ! i)) = Inr (vs ! i)"
    by blast
  from vs(1) assms have "listRecent brd_name st = (Send 200 (JArr (map JObj vs)), st1)"
    by (simp add: listRecent_def)
  with vs(2,3) show ?thesis by auto
qed

lemma getBoard_returns: "brd_name \<noteq> [] \<Longrightarrow> \<exists>brd st1. getBoard brd_name st = Inr (brd, st1)"
  by (simp add: getBoard_def validate_board Let_def split: option.splits)

lemma findThreads_length: "length (findThreads brd st) \<le> 10"
  by (simp add: findThreads_def)

lemma findThreads_sorted:
  assumes "i < j" "j < length (findThreads brd st)"
  shows "bumped_on (findThreads brd st ! j) \<le> bumped_on (findThreads brd st ! i)"
proof -
  let ?f = "\<lambda>t::thread. - bumped_on t"
  let ?xs = "sort_key ?f (filter (\<lambda>t. oid t \<in> set (threads brd)) (Thread st))"
  have "sorted (map ?f ?xs)" by (rule sorted_sort_key)
  then have "sorted_wrt (\<lambda>x y. ?f x \<le> ?f y) ?xs" by (simp add: sorted_map)
  then have "sorted_wrt (\<lambda>x y. ?f x \<le> ?f y) (take 10 ?xs)" by (rule sorted_wrt_take)
  then have "sorted_wrt (\<lambda>x y. ?f x \<le> ?f y) (findThreads brd st)" by (simp add: findThreads_def)
  from sorted_wrt_nth_less[OF this assms] show ?thesis by simp
qed

text \<open>
  Claim C4. For every board, \<open>listRecent\<close> sends at most 10 thread views, ordered by
  \<^verbatim>\<open>bumped_on\<close> descending: of two views, the earlier one has the greater or equal
  \<^verbatim>\<open>bumped_on\<close>. For a board name of the route, which is not empty, it does send
  the list.
\<close>

theorem C4_listRecent_bounded_sorted:
  "(brd_name \<noteq> [] \<longrightarrow> (\<exists>views st'. listRecent brd_name st = (Send 200 (JArr views), st')))
   \<and> (\<forall>status views st'. listRecent brd_name st = (Send status (JArr views), st') \<longrightarrow>
        length views \<le> 10
        \<and> (\<forall>i j. i < j \<and> j < length views \<longrightarrow>
             (\<exists>a b. getProp ''bumped_on'' (views ! i) = Some (JDate a)
                  \<and> getProp ''bumped_on'' (views ! j) = Some (JDate b) \<and> b \<le> a)))"
proof (intro conjI allI impI)
  assume "brd_name \<noteq> []"
  then obtain brd st1 where "getBoard brd_name st = Inr (brd, st1)"
    using getBoard_returns by blast
  from listRecent_views[OF this] show "\<exists>views st'. listRecent brd_name st = (Send 200 (JArr views), st')"
    by blast
next
  fix status views st'
  assume a: "listRecent brd_name st = (Send status (JArr views), st')"
  then obtain brd st1 where g: "getBoard brd_name st = Inr (brd, st1)"
    by (auto simp: listRecent_def split: sum.splits)
  let ?ts = "findThreads brd st1"
  from listRecent_views[OF g] a obtain vs where views: "views = map JObj vs"
    and len: "length vs = length ?ts"
    and each: "\<forall>i<length vs. threadListView (leanThread st1 (?ts ! i)) = Inr (vs ! i)"
    by auto
  have bump: "getProp ''bumped_on'' (views ! i) = Some (JDate (bumped_on (?ts ! i)))"
    if "i < length views" for i
  proof -
    from that views have i: "i < length vs" by simp
    with each have "threadListView (leanThread st1 (?ts ! i)) = Inr (vs ! i)" by simp
    with threadListView_leanThread[of st1 "?ts ! i"]
    have "map_of (vs ! i) ''bumped_on'' = Some (JDate (bumped_on (?ts ! i)))" by auto
    with i views show ?thesis by (simp add: getProp_def)
  qed
  show "length views \<le> 10" using views len findThreads_length[of brd st1] by simp
  fix i j
  assume ij: "i < j \<and> j < length views"
  then have "bumped_on (?ts ! j) \<le> bumped_on (?ts ! i)"
    using findThreads_sorted[of i j brd st1] views len by simp
  with bump[of i] bump[of j] ij
  show "\<exists>a b. getProp ''bumped_on'' (views ! i) = Some (JDate a)
                  \<and> getProp ''bumped_on'' (views ! j) = Some (JDate b) \<and> b \<le> a"
    by simp
qed

theorem C4_witness:
  "''general'' \<noteq> []
   \<and> (\<exists>v w. listRecent ''general'' twoThreadsDb = (Send 200 (JArr [v, w]), twoThreadsDb)
        \<and> length [v, w] \<le> 10 \<and> (0::nat) < 1 \<and> 1 < length [v, w]
        \<and> getProp ''bumped_on'' v = Some (JDate 5000)
        \<and> getProp ''bumped_on'' w = Some (JDate 1000) \<and> (1000::int) \<le> 5000)"
  using C4_listRecent_bounded_sorted[of "''general''" twoThreadsDb] twoThreads_listRecent
  by (simp add: getProp_def)

text \<open>
  The comment of the handler says "return only the last three items of the replies
  array". The slice starts at \<^verbatim>\<open>length - 3\<close>, which is negative below three replies
  and then counts from the end: of two replies only the last is kept, and for every
  other length the slice is the last three replies, all of them when there are fewer.
\<close>

lemma slice_preview:
  "slice (int (length rs) - 3) rs =
     (if length rs = 2 then drop 1 rs else drop (length rs - 3) rs)"
  by (auto simp: slice_def Let_def max_def nat_diff_distrib')

text \<open>
  Claim C5 says that the \<^verbatim>\<open>replies\<close> of a thread in the list are the last three of
  its stored replies, all of them when there are fewer, and \<^verbatim>\<open>replycount\<close> their
  number. For the thread of the board "general" with exactly two replies, the list
  shows \<^verbatim>\<open>replycount\<close> 2 and the second reply only.
\<close>

theorem C5_two_replies_preview:
  "listRecent ''general'' twoRepliesDb =
    (Send 200 (JArr
       [JObj [(''_id'', JId 1), (''text'', JStr ''hello''), (''created_on'', JDate 1000),
              (''bumped_on'', JDate 3000),
              (''replies'', JArr [JObj [(''_id'', JId 3), (''text'', JStr ''again''),
                                         (''created_on'', JDate 3000)]]),
              (''replycount'', JNum 2)]]),
     twoRepliesDb)"
  by (simp add: twoRepliesDb_def eval_defs)

section \<open>Creation\<close>

lemma getBoard_collections:
  "getBoard brd_name st = Inr (brd, st1) \<Longrightarrow>
     Thread st1 = Thread st \<and> Reply st1 = Reply st
     \<and> (Board st1 = Board st
         \<or> Board st1 = Board st @ [\<lparr>oid = next_oid st, name = brd_name, threads = []\<rparr>])"
  by (auto simp: getBoard_def Let_def split: option.splits if_splits)

text \<open>
  Claim C6, as amended. A thread that \<open>createThread\<close> creates has \<^verbatim>\<open>created_on\<close> and
  \<^verbatim>\<open>bumped_on\<close> from two readings of the clock, one for each default, and they are
  equal when the two readings are. After every successful \<open>createReply\<close> the
  \<^verbatim>\<open>bumped_on\<close> of the thread is the \<^verbatim>\<open>created_on\<close> of the new reply, which is the
  last of the thread's replies.
\<close>

theorem C6_bumped_on:
  "(createThread B c_now b_now brd_name txt pw st = (Redirect status loc q, st') \<longrightarrow>
      (\<exists>t. Thread st' = Thread st @ [t] \<and> created_on t = c_now \<and> bumped_on t = b_now
          \<and> (b_now = c_now \<longrightarrow> bumped_on t = created_on t)))
   \<and> (createReply B now brd_name txt pw thread_id st = (Redirect status loc q, st') \<longrightarrow>
      (\<exists>r t0 t. Reply st' = Reply st @ [r] \<and> created_on r = now
          \<and> findById thread_id (Thread st) = Some t0
          \<and> findById thread_id (Thread st') = Some t
          \<and> replies t = replies t0 @ [oid r]
          \<and> bumped_on t = created_on r))"
proof (intro conjI impI)
  assume a: "createThread B c_now b_now brd_name txt pw st = (Redirect status loc q, st')"
  then obtain p where pw: "pw = Some p"
    by (cases pw) (auto simp: createThread_def)
  from a pw obtain brd st1 where g: "getBoard brd_name st = Inr (brd, st1)"
    by (auto simp: createThread_def Let_def split: sum.splits)
  from getBoard_collections[OF g] have th: "Thread st1 = Thread st" by simp
  from a pw g th show "\<exists>t. Thread st' = Thread st @ [t] \<and> created_on t = c_now \<and> bumped_on t = b_now
          \<and> (b_now = c_now \<longrightarrow> bumped_on t = created_on t)"
    by (auto simp: createThread_def Let_def split: if_splits)
next
  assume a: "createReply B now brd_name txt pw thread_id st = (Redirect status loc q, st')"
  then obtain p where pw: "pw = Some p"
    by (cases pw) (auto simp: createReply_def)
  from a pw obtain t0 where t0: "findById thread_id (Thread st) = Some t0"
    by (cases "findById thread_id (Thread st)") (auto simp: createReply_def Let_def split: if_splits)
  then have oid: "oid t0 = thread_id" by (simp add: findById_Some)
  let ?r = "\<lparr>oid = next_oid st, text = txt, created_on = now,
              delete_password = hash B p, reported = False\<rparr>"
  from a pw t0 oid have st': "st' = st\<lparr>Reply := Reply st @ [?r], next_oid := Suc (next_oid st),
      Thread := updateById thread_id (\<lambda>t. t\<lparr>replies := replies t @ [oid ?r], bumped_on := created_on ?r\<rparr>) (Thread st)\<rparr>"
    by (auto simp: createReply_def Let_def split: if_splits)
  let ?t = "t0\<lparr>replies := replies t0 @ [oid ?r], bumped_on := created_on ?r\<rparr>"
  have "findById thread_id (Thread st') = Some ?t"
    by (simp add: st' findById_updateById t0 oid)
  with st' t0 show "\<exists>r t0 t. Reply st' = Reply st @ [r] \<and> created_on r = now
          \<and> findById thread_id (Thread st) = Some t0
          \<and> findById thread_id (Thread st') = Some t
          \<and> replies t = replies t0 @ [oid r]
          \<and> bumped_on t = created_on r"
    by (intro exI[of _ ?r] exI[of _ t0] exI[of _ ?t]) simp
qed

text \<open>
  The claim as first stated has \<^verbatim>\<open>bumped_on\<close> equal to \<^verbatim>\<open>created_on\<close> for every
  created thread. When the clock moves from 1000 to 1001 between the two defaults, the
  created thread has the two dates different.
\<close>

theorem C6_counterexample:
  "fst (createThread demoBcrypt 1000 1001 ''general'' (Some ''hello'') (Some ''p1'') emptyDb)
     = Redirect 302 ''general'' None
   \<and> map (\<lambda>t. (created_on t, bumped_on t))
       (Thread (snd (createThread demoBcrypt 1000 1001 ''general'' (Some ''hello'') (Some ''p1'') emptyDb)))
     = [(1000, 1001)]"
  by (simp add: createThread_def demoBcrypt_def emptyDb_def eval_defs)

theorem C6_witness:
  "createThread demoBcrypt 1000 1000 ''general'' (Some ''hello'') (Some ''p1'') emptyDb
     = (Redirect 302 ''general'' None,
        \<lparr>Board = [\<lparr>oid = 0, name = ''general'', threads = [1]\<rparr>],
         Thread = [\<lparr>oid = 1, text = Some ''hello'', created_on = 1000,
                    delete_password = ''$2b$10$p1'', reported = False,
                    bumped_on = 1000, replies = []\<rparr>],
         Reply = [], next_oid = 2\<rparr>)
   \<and> (\<exists>t. Thread \<lparr>Board = [\<lparr>oid = 0, name = ''general'', threads = [1]\<rparr>],
         Thread = [\<lparr>oid = 1, text = Some ''hello'', created_on = 1000,
                    delete_password = ''$2b$10$p1'', reported = False,
                    bumped_on = 1000, replies = []\<rparr>],
         Reply = [], next_oid = 2\<rparr> = Thread emptyDb @ [t] \<and> bumped_on t = created_on t)
   \<and> createReply demoBcrypt 3000 ''general'' (Some ''again'') (Some ''p3'') 1 demoDb
     = (Redirect 302 ''general'' (Some 1), twoRepliesDb)
   \<and> (\<exists>r t. Reply twoRepliesDb = Reply demoDb @ [r] \<and> created_on r = 3000
         \<and> findById 1 (Thread twoRepliesDb) = Some t \<and> bumped_on t = created_on r)"
proof -
  let ?st = "\<lparr>Board = [\<lparr>oid = 0, name = ''general'', threads = [1]\<rparr>],
         Thread = [\<lparr>oid = 1, text = Some ''hello'', created_on = 1000,
                    delete_password = ''$2b$10$p1'', reported = False,
                    bumped_on = 1000, replies = []\<rparr>],
         Reply = [], next_oid = 2\<rparr>"
  have a: "createThread demoBcrypt 1000 1000 ''general'' (Some ''hello'') (Some ''p1'') emptyDb
     = (Redirect 302 ''general'' None, ?st)"
    by (simp add: createThread_def demoBcrypt_def emptyDb_def eval_defs)
  have b: "createReply demoBcrypt 3000 ''general'' (Some ''again'') (Some ''p3'') 1 demoDb
     = (Redirect 302 ''general'' (Some 1), twoRepliesDb)"
    by (simp add: createReply_def demoBcrypt_def demoDb_def twoRepliesDb_def eval_defs)
  from C6_bumped_on[of demoBcrypt 1000 1000 "''general''" "Some ''hello''" "Some ''p1''" emptyDb
         302 "''general''" None ?st] a
  have "\<exists>t. Thread ?st = Thread emptyDb @ [t] \<and> bumped_on t = created_on t"
    by (simp add: emptyDb_def)
  moreover
  from C6_bumped_on[of demoBcrypt 3000 3000 "''general''" "Some ''again''" "Some ''p3''" demoDb
         302 "''general''" "Some 1" twoRepliesDb 3000 1] b
  have "\<exists>r t. Reply twoRepliesDb = Reply demoDb @ [r] \<and> created_on r = 3000
         \<and> findById 1 (Thread twoRepliesDb) = Some t \<and> bumped_on t = created_on r"
    by blast
  ultimately show ?thesis using a b by blast
qed

text \<open>
  Claim C8, as amended. A creation request without a password is rejected by bcrypt
  before anything is written. \<open>createThread\<close> without a text (or with the empty text) is
  rejected with a ValidationError when the thread is saved: no thread and no reply is
  created or changed and no existing board is changed, but the board of the request has
  been created by then when it did not exist.
\<close>

theorem C8_rejected_creations:
  "createThread B c_now b_now brd_name txt None st = (Rejected BcryptError, st)
   \<and> createReply B now brd_name txt None thread_id st = (Rejected BcryptError, st)
   \<and> ((txt = None \<or> txt = Some []) \<and> brd_name \<noteq> [] \<longrightarrow>
        (\<exists>brd st1. getBoard brd_name st = Inr (brd, st1)
           \<and> createThread B c_now b_now brd_name txt (Some p) st = (Rejected ValidationError, st1)
           \<and> Thread st1 = Thread st \<and> Reply st1 = Reply st
           \<and> (Board st1 = Board st
               \<or> Board st1 = Board st @ [\<lparr>oid = next_oid st, name = brd_name, threads = []\<rparr>])))"
proof (intro conjI impI)
  show "createThread B c_now b_now brd_name txt None st = (Rejected BcryptError, st)"
    by (simp add: createThread_def)
  show "createReply B now brd_name txt None thread_id st = (Rejected BcryptError, st)"
    by (simp add: createReply_def)
next
  assume a: "(txt = None \<or> txt = Some []) \<and> brd_name \<noteq> []"
  then obtain brd st1 where g: "getBoard brd_name st = Inr (brd, st1)"
    using getBoard_returns by blast
  from a g have "createThread B c_now b_now brd_name txt (Some p) st = (Rejected ValidationError, st1)"
    by (auto simp: createThread_def validate_thread Let_def)
  with g getBoard_collections[OF g]
  show "\<exists>brd st1. getBoard brd_name st = Inr (brd, st1)
           \<and> createThread B c_now b_now brd_name txt (Some p) st = (Rejected ValidationError, st1)
           \<and> Thread st1 = Thread st \<and> Reply st1 = Reply st
           \<and> (Board st1 = Board st
               \<or> Board st1 = Board st @ [\<lparr>oid = next_oid st, name = brd_name, threads = []\<rparr>])"
    by blast
qed

text \<open>
  The claim as first stated has no board created by a rejected request. A thread without
  text for the board "general" of the empty database is rejected, and the database then
  has the board.
\<close>

theorem C8_counterexample:
  "Board emptyDb = []
   \<and> createThread demoBcrypt 1000 1000 ''general'' None (Some ''p1'') emptyDb =
       (Rejected ValidationError,
        \<lparr>Board = [\<lparr>oid = 0, name = ''general'', threads = []\<rparr>],
         Thread = [], Reply = [], next_oid = 1\<rparr>)"
  by (simp add: createThread_def demoBcrypt_def emptyDb_def eval_defs)

theorem C8_witness:
  "''general'' \<noteq> []
   \<and> createThread demoBcrypt 1000 1000 ''general'' (Some ''hello'') None demoDb = (Rejected BcryptError, demoDb)
   \<and> createReply demoBcrypt 1000 ''general'' (Some ''hi'') None 1 demoDb = (Rejected BcryptError, demoDb)
   \<and> getBoard ''general'' demoDb = Inr (hd (Board demoDb), demoDb)
   \<and> createThread demoBcrypt 1000 1000 ''general'' None (Some ''p1'') demoDb = (Rejected ValidationError, demoDb)"
proof -
  have g: "getBoard ''general'' demoDb = Inr (hd (Board demoDb), demoDb)"
    by (simp add: getBoard_def demoDb_def)
  from C8_rejected_creations[of demoBcrypt 1000 1000 "''general''" "Some ''hello''" demoDb 1000 1 "''p1''"]
       C8_rejected_creations[of demoBcrypt 1000 1000 "''general''" "Some ''hi''" demoDb 1000 1 "''p1''"]
       C8_rejected_creations[of demoBcrypt 1000 1000 "''general''" None demoDb 1000 1 "''p1''"] g
  show ?thesis by auto
qed

text \<open>
  \<open>replySchema\<close> does not require \<^verbatim>\<open>text\<close>: a reply without text is saved.
\<close>

lemma createReply_without_text:
  "createReply demoBcrypt 3000 ''general'' None (Some ''p3'') 1 demoDb =
     (Redirect 302 ''general'' (Some 1),
      twoRepliesDb\<lparr>Reply := [hd (Reply twoRepliesDb),
                               \<lparr>oid = 3, text = None, created_on = 3000,
                                delete_password = ''$2b$10$p3'', reported = False\<rparr>]\<rparr>)"
  by (simp add: createReply_def demoBcrypt_def demoDb_def twoRepliesDb_def eval_defs)

section \<open>The frame of a redaction\<close>

lemma populateDocs_updateById:
  assumes "\<And>d. oid (f d) = oid d" and "Reply st' = updateById i f (Reply st)"
  shows "populateDocs st' refs = map (\<lambda>d. if oid d = i then f d else d) (populateDocs st refs)"
proof (induction refs)
  case Nil
  show ?case by (simp add: populateDocs_def)
next
  case (Cons j refs)
  have "findById j (Reply st') = map_option (\<lambda>d. if oid d = i then f d else d) (findById j (Reply st))"
    using assms by (simp add: findById_updateById)
  with Cons show ?case
    by (cases "findById j (Reply st)") (simp_all add: populateDocs_def)
qed

lemma populateDocs_member:
  "i \<in> set refs \<Longrightarrow> findById i (Reply st) = Some r \<Longrightarrow> r \<in> set (populateDocs st refs)"
  by (induction refs) (auto simp: populateDocs_def split: option.splits)

lemma leanReply_text:
  "leanReply (r\<lparr>text := Some s\<rparr>) =
     JObj [(''_id'', JId (oid r)), (''text'', JStr s), (''created_on'', JDate (created_on r))]"
  by (simp add: leanReply_def selectDefault_def replySchema_def replyObject_def optField_def)

text \<open>
  Claim C3. For every existing reply, \<open>redactReply\<close> with the password of the reply
  overwrites the text of that reply with \<^verbatim>\<open>[deleted]\<close> and nothing else: the id, the
  date, the digest and the reported flag of the reply are as before, every other reply,
  every thread and every board is as before, and \<open>getFull\<close> on a thread that has the
  reply still sends it, among as many replies as before.
\<close>

theorem C3_redact_frame:
  assumes "findById reply_id (Reply st) = Some rply" and "compare B p (delete_password rply)"
  shows "\<exists>st'. redactReply B (Some p) thread_id reply_id st = (Send 200 (JStr ''success''), st')
     \<and> Reply st' = map (\<lambda>r. if oid r = reply_id then r\<lparr>text := Some ''[deleted]''\<rparr> else r) (Reply st)
     \<and> Thread st' = Thread st \<and> Board st' = Board st \<and> next_oid st' = next_oid st
     \<and> (\<exists>r. findById reply_id (Reply st') = Some r
           \<and> text r = Some ''[deleted]'' \<and> oid r = oid rply \<and> created_on r = created_on rply
           \<and> delete_password r = delete_password rply \<and> reported r = reported rply)
     \<and> (\<forall>parent_id parent. findById parent_id (Thread st) = Some parent
            \<and> reply_id \<in> set (replies parent) \<longrightarrow>
          (\<exists>thrd rs. getFull parent_id st' = Send 200 (JObj thrd)
             \<and> map_of thrd ''replies'' = Some (JArr rs)
             \<and> length rs = length (populateDocs st (replies parent))
             \<and> JObj [(''_id'', JId reply_id), (''text'', JStr ''[deleted]''),
                      (''created_on'', JDate (created_on rply))] \<in> set rs))"
proof -
  let ?f = "\<lambda>r::reply. r\<lparr>text := Some ''[deleted]''\<rparr>"
  let ?g = "\<lambda>r::reply. if oid r = reply_id then ?f r else r"
  let ?st' = "st\<lparr>Reply := updateById reply_id ?f (Reply st)\<rparr>"
  from assms(1) have oid: "oid rply = reply_id" by (simp add: findById_Some)
  have run: "redactReply B (Some p) thread_id reply_id st = (Send 200 (JStr ''success''), ?st')"
    using assms oid by (simp add: redactReply_def)
  have rep: "Reply ?st' = map ?g (Reply st)" by (simp add: updateById_def)
  have found: "findById reply_id (Reply ?st') = Some (?f rply)"
    using assms(1) oid by (simp add: findById_updateById)
  have pop: "populateDocs ?st' refs = map ?g (populateDocs st refs)" for refs
    by (rule populateDocs_updateById) simp_all
  have full: "\<exists>thrd rs. getFull parent_id ?st' = Send 200 (JObj thrd)
             \<and> map_of thrd ''replies'' = Some (JArr rs)
             \<and> length rs = length (populateDocs st (replies parent))
             \<and> JObj [(''_id'', JId reply_id), (''text'', JStr ''[deleted]''),
                      (''created_on'', JDate (created_on rply))] \<in> set rs"
    if p: "findById parent_id (Thread st) = Some parent" "reply_id \<in> set (replies parent)"
    for parent_id parent
  proof -
    let ?rs = "map leanReply (populateDocs ?st' (replies parent))"
    from p(1) have "getFull parent_id ?st' = Send 200 (JObj (leanThread ?st' parent))"
      by (simp add: getFull_def)
    moreover have "map_of (leanThread ?st' parent) ''replies'' = Some (JArr ?rs)"
      by (rule leanThread_replies)
    moreover have "length ?rs = length (populateDocs st (replies parent))"
      by (simp add: pop)
    moreover have "JObj [(''_id'', JId reply_id), (''text'', JStr ''[deleted]''),
                      (''created_on'', JDate (created_on rply))] \<in> set ?rs"
    proof -
      from populateDocs_member[OF p(2) found] have "?f rply \<in> set (populateDocs ?st' (replies parent))" .
      then have "leanReply (?f rply) \<in> set ?rs" by simp
      then show ?thesis by (simp only: leanReply_text oid)
    qed
    ultimately show ?thesis by blast
  qed
  from run rep found full show ?thesis
    by (intro exI[of _ ?st']) auto
qed

theorem C3_witness:
  "findById 2 (Reply demoDb) = Some (hd (Reply demoDb))
   \<and> compare demoBcrypt ''p2'' (delete_password (hd (Reply demoDb)))
   \<and> findById 1 (Thread demoDb) = Some (hd (Thread demoDb))
   \<and> 2 \<in> set (replies (hd (Thread demoDb)))
   \<and> (\<exists>st'. redactReply demoBcrypt (Some ''p2'') 1 2 demoDb = (Send 200 (JStr ''success''), st')
        \<and> Thread st' = Thread demoDb \<and> Board st' = Board demoDb
        \<and> (\<exists>thrd rs. getFull 1 st' = Send 200 (JObj thrd)
              \<and> map_of thrd ''replies'' = Some (JArr rs)
              \<and> JObj [(''_id'', JId 2), (''text'', JStr ''[deleted]''), (''created_on'', JDate 2000)]
                   \<in> set rs))"
proof -
  have f: "findById 2 (Reply demoDb) = Some (hd (Reply demoDb))"
    and t: "findById 1 (Thread demoDb) = Some (hd (Thread demoDb))"
    by (simp_all add: demoDb_def findById_def)
  have c: "compare demoBcrypt ''p2'' (delete_password (hd (Reply demoDb)))"
    and m: "2 \<in> set (replies (hd (Thread demoDb)))"
    and d: "created_on (hd (Reply demoDb)) = 2000"
    by (simp_all add: demoDb_def demoBcrypt_def)
  from C3_redact_frame[OF f c, of 1] obtain st' where
    r: "redactReply demoBcrypt (Some ''p2'') 1 2 demoDb = (Send 200 (JStr ''success''), st')"
       "Thread st' = Thread demoDb" "Board st' = Board demoDb"
    and v: "\<forall>parent_id parent. findById parent_id (Thread demoDb) = Some parent
            \<and> 2 \<in> set (replies parent) \<longrightarrow>
          (\<exists>thrd rs. getFull parent_id st' = Send 200 (JObj thrd)
             \<and> map_of thrd ''replies'' = Some (JArr rs)
             \<and> length rs = length (populateDocs demoDb (replies parent))
             \<and> JObj [(''_id'', JId 2), (''text'', JStr ''[deleted]''),
                      (''created_on'', JDate (created_on (hd (Reply demoDb))))] \<in> set rs)"
    by blast
  from v t m d have "\<exists>thrd rs. getFull 1 st' = Send 200 (JObj thrd)
              \<and> map_of thrd ''replies'' = Some (JArr rs)
              \<and> JObj [(''_id'', JId 2), (''text'', JStr ''[deleted]''), (''created_on'', JDate 2000)]
                   \<in> set rs"
    by metis
  with r f c t m show ?thesis by blast
qed


end
